theory Spec2Isabelle
  imports Main "HOL-Library.Word"
begin

section \<open>Values, errors and the OER codec\<close>

type_synonym byte = "8 word"

text \<open>
  A JavaScript argument as the setters see it: either a Buffer, with its octets, or any
  other value, for which \<open>Buffer.isBuffer\<close> is false. A field that the constructor
  sets to \<open>null\<close> and that only ever receives Buffers is a \<open>byte list option\<close>;
  \<open>None\<close> is \<open>null\<close>, the one falsy value such a field holds (a Buffer is an
  object and is truthy even when it is empty).
\<close>

datatype js_value = NotABuffer | Buffer "byte list"

datatype error =
    TypeError
  | Error
  | MissingDataError
  | ValidationError
  | ParseError
  | RangeError

text \<open>
  Modelled from the spec: the package oer-utils (Writer, Hasher, Predictor, Reader) is a
  dependency whose code is not part of the sources. The spec gives the format:
  a VarUInt is the big-endian minimum-length octets of the number, prefixed by their count
  as one octet of at most 0x7F, and zero has no value octets; a VarOctetString is the
  octets prefixed by their count as a VarUInt.
\<close>

fun uintBytes :: "nat \<Rightarrow> byte list" where
  "uintBytes n = (if n = 0 then [] else uintBytes (n div 256) @ [of_nat (n mod 256)])"

declare uintBytes.simps [simp del]

definition bytesUInt :: "byte list \<Rightarrow> nat" where
  "bytesUInt bs = foldl (\<lambda>a b. a * 256 + unat b) 0 bs"

definition encodeVarUInt :: "nat \<Rightarrow> byte list" where
  "encodeVarUInt v = of_nat (length (uintBytes v)) # uintBytes v"

definition encodeVarOctetString :: "byte list \<Rightarrow> byte list" where
  "encodeVarOctetString b = encodeVarUInt (length b) @ b"

text \<open>
  Modelled from the spec: the three objects that share the writing interface. The Writer
  appends to a buffer, the Hasher is fed the same octets (kept here as the octets fed, the
  digest is not needed), the Predictor only counts.
\<close>

datatype sink = Writer "byte list" | Hasher "byte list" | Predictor nat

fun sink_write :: "byte list \<Rightarrow> sink \<Rightarrow> sink" where
  "sink_write bs (Writer w) = Writer (w @ bs)"
| "sink_write bs (Hasher h) = Hasher (h @ bs)"
| "sink_write bs (Predictor n) = Predictor (n + length bs)"

fun getSize :: "sink \<Rightarrow> nat" where
  "getSize (Writer w) = length w"
| "getSize (Hasher h) = length h"
| "getSize (Predictor n) = n"

text \<open>
  Modelled from the spec: a number whose octets are more than 0x7F many has no VarUInt
  encoding (the count has to fit one octet of at most 0x7F), so writing it raises.
\<close>

definition writeVarUInt :: "nat \<Rightarrow> sink \<Rightarrow> (error + unit) \<times> sink" where
  "writeVarUInt v w =
     (if 127 < length (uintBytes v) then (Inl RangeError, w)
      else (Inr (), sink_write (encodeVarUInt v) w))"

definition writeVarOctetString :: "byte list \<Rightarrow> sink \<Rightarrow> (error + unit) \<times> sink" where
  "writeVarOctetString b w =
     (case writeVarUInt (length b) w of
        (Inl e, w') \<Rightarrow> (Inl e, w')
      | (Inr _, w') \<Rightarrow> (Inr (), sink_write b w'))"

text \<open>
  Modelled from the spec: \<open>writeOctetString(buf, fixedLen)\<close> writes the octets with
  no prefix. The argument is a field that may still be \<open>null\<close>; a \<open>null\<close> and a
  buffer of another length are both refused.
\<close>

definition writeOctetString :: "byte list option \<Rightarrow> nat \<Rightarrow> sink \<Rightarrow> (error + unit) \<times> sink" where
  "writeOctetString buf fixedLen w =
     (case buf of
        None \<Rightarrow> (Inl TypeError, w)
      | Some b \<Rightarrow>
          if length b \<noteq> fixedLen then (Inl Error, w)
          else (Inr (), sink_write b w))"

text \<open>
  Modelled from the spec: the Reader, as the octets not yet read. It fails with a parse
  error on truncation, on a length prefix larger than what remains, and on a VarUInt
  count octet above 0x7F. A failed read leaves the reader where it was.
\<close>

type_synonym reader = "byte list"

definition readVarUInt :: "reader \<Rightarrow> (error + nat) \<times> reader" where
  "readVarUInt rd =
     (case rd of
        [] \<Rightarrow> (Inl ParseError, rd)
      | l # rest \<Rightarrow>
          if 127 < unat l then (Inl ParseError, rd)
          else if length rest < unat l then (Inl ParseError, rd)
          else (Inr (bytesUInt (take (unat l) rest)), drop (unat l) rest))"

definition readVarOctetString :: "reader \<Rightarrow> (error + byte list) \<times> reader" where
  "readVarOctetString rd =
     (case readVarUInt rd of
        (Inl e, rd') \<Rightarrow> (Inl e, rd)
      | (Inr n, rd') \<Rightarrow>
          if length rd' < n then (Inl ParseError, rd)
          else (Inr (take n rd'), drop n rd'))"

definition readOctetString :: "nat \<Rightarrow> reader \<Rightarrow> (error + byte list) \<times> reader" where
  "readOctetString fixedLen rd =
     (if length rd < fixedLen then (Inl ParseError, rd)
      else (Inr (take fixedLen rd), drop fixedLen rd))"

section \<open>RSA-SHA-256\<close>

text \<open>
  The class \<open>RsaSha256\<close>: the two fields its constructor sets to \<open>null\<close>. A method
  that assigns to \<open>this\<close> returns its outcome together with the object as it is left,
  also when it throws, so that what a failed call did to the object can be stated.
\<close>

record RsaSha256 =
  modulus :: "byte list option"
  signature :: "byte list option"

definition RsaSha256_constructor :: RsaSha256 where
  "RsaSha256_constructor = \<lparr>modulus = None, signature = None\<rparr>"

definition RsaSha256_TYPE_ID :: nat where
  "RsaSha256_TYPE_ID = 3"

definition RsaSha256_FEATURE_BITMASK :: nat where
  "RsaSha256_FEATURE_BITMASK = 0x11"

definition RsaSha256_writeCommonHeader :: "RsaSha256 \<Rightarrow> sink \<Rightarrow> (error + unit) \<times> sink" where
  "RsaSha256_writeCommonHeader this writer =
     (case modulus this of
        None \<Rightarrow> (Inl MissingDataError, writer)
      | Some m \<Rightarrow> writeVarOctetString m writer)"

text \<open>
  \<open>modulus[0] === 0\<close>: on an empty Buffer the index yields \<open>undefined\<close>, which is not
  \<open>0\<close>.
\<close>

definition firstByteIsZero :: "byte list \<Rightarrow> bool" where
  "firstByteIsZero m = (case m of [] \<Rightarrow> False | b # _ \<Rightarrow> b = 0)"

definition RsaSha256_setPublicModulus :: "js_value \<Rightarrow> RsaSha256 \<Rightarrow> (error + unit) \<times> RsaSha256" where
  "RsaSha256_setPublicModulus v this =
     (case v of
        NotABuffer \<Rightarrow> (Inl TypeError, this)
      | Buffer m \<Rightarrow>
          if firstByteIsZero m then (Inl Error, this)
          else if length m > 512 \<or> length m < 128 then (Inl Error, this)
          else (Inr (), this\<lparr>modulus := Some m\<rparr>))"

definition RsaSha256_setSignature :: "js_value \<Rightarrow> RsaSha256 \<Rightarrow> (error + unit) \<times> RsaSha256" where
  "RsaSha256_setSignature v this =
     (case v of
        NotABuffer \<Rightarrow> (Inl TypeError, this)
      | Buffer s \<Rightarrow> (Inr (), this\<lparr>signature := Some s\<rparr>))"






definition RsaSha256_writeHashPayload :: "RsaSha256 \<Rightarrow> sink \<Rightarrow> (error + unit) \<times> sink" where
  "RsaSha256_writeHashPayload this hasher = RsaSha256_writeCommonHeader this hasher"

definition RsaSha256_parsePayload ::
  "reader \<Rightarrow> RsaSha256 \<Rightarrow> (error + unit) \<times> RsaSha256 \<times> reader" where
  "RsaSha256_parsePayload rd this =
     (case readVarOctetString rd of
        (Inl e, rd1) \<Rightarrow> (Inl e, this, rd1)
      | (Inr m, rd1) \<Rightarrow>
          (case RsaSha256_setPublicModulus (Buffer m) this of
             (Inl e, this1) \<Rightarrow> (Inl e, this1, rd1)
           | (Inr _, this1) \<Rightarrow>
               (case readVarOctetString rd1 of
                  (Inl e, rd2) \<Rightarrow> (Inl e, this1, rd2)
                | (Inr s, rd2) \<Rightarrow>
                    (case RsaSha256_setSignature (Buffer s) this1 of
                       (r, this2) \<Rightarrow> (r, this2, rd2)))))"

definition RsaSha256_writePayload :: "RsaSha256 \<Rightarrow> sink \<Rightarrow> (error + unit) \<times> sink" where
  "RsaSha256_writePayload this writer =
     (case signature this of
        None \<Rightarrow> (Inl MissingDataError, writer)
      | Some s \<Rightarrow>
          (case RsaSha256_writeCommonHeader this writer of
             (Inl e, w1) \<Rightarrow> (Inl e, w1)
           | (Inr _, w1) \<Rightarrow> writeVarOctetString s w1))"

definition RsaSha256_calculateMaxFulfillmentLength :: "RsaSha256 \<Rightarrow> error + nat" where
  "RsaSha256_calculateMaxFulfillmentLength this =
     (let predictor = Predictor 0 in
      case modulus this of
        None \<Rightarrow> Inl MissingDataError
      | Some m \<Rightarrow>
          (case RsaSha256_writeCommonHeader this predictor of
             (Inl e, p1) \<Rightarrow> Inl e
           | (Inr _, p1) \<Rightarrow>
               (case writeVarOctetString m p1 of
                  (Inl e, p2) \<Rightarrow> Inl e
                | (Inr _, p2) \<Rightarrow> Inr (getSize p2))))"

text \<open>
  \<open>rsa.verify\<close> of \<open>../crypto/rsa\<close> is not part of the sources; \<open>validate\<close> takes
  it as the parameter \<open>verify\<close>, a call that either throws or returns a value, of which
  \<open>validate\<close> reads the truthiness. It is handed the two fields as they are, and there
  is no handler around the call: what it throws leaves \<open>validate\<close> as it is.
\<close>

definition RsaSha256_validate ::
  "(byte list option \<Rightarrow> byte list \<Rightarrow> byte list option \<Rightarrow> error + bool) \<Rightarrow>
   js_value \<Rightarrow> RsaSha256 \<Rightarrow> error + bool" where
  "RsaSha256_validate verify message this =
     (case message of
        NotABuffer \<Rightarrow> Inl Error
      | Buffer msg \<Rightarrow>
          (case verify (modulus this) msg (signature this) of
             Inl e \<Rightarrow> Inl e
           | Inr pssResult \<Rightarrow>
               if \<not> pssResult then Inl ValidationError else Inr True))"

text \<open>
  Modelled from the spec: \<open>rsa.verify\<close>, the RSA-PSS verification (SHA-256,
  MGF1-SHA-256, salt length 32, public exponent 65537) of the signature against the message
  and the modulus; its verdict on a signature is the primitive \<open>pss\<close>. RSA verification
  is defined for a signature that, read as a big-endian number, is below the modulus. A
  call outside that has no verdict and throws, and so does a call that is handed
  \<open>null\<close> where it reads a Buffer.
\<close>

definition rsa_verify ::
  "(byte list \<Rightarrow> byte list \<Rightarrow> byte list \<Rightarrow> bool) \<Rightarrow>
   byte list option \<Rightarrow> byte list \<Rightarrow> byte list option \<Rightarrow> error + bool" where
  "rsa_verify pss m message s =
     (case m of
        None \<Rightarrow> Inl TypeError
      | Some n \<Rightarrow>
          (case s of
             None \<Rightarrow> Inl TypeError
           | Some sg \<Rightarrow>
               if bytesUInt n \<le> bytesUInt sg then Inl Error
               else Inr (pss n message sg)))"

text \<open>
  A verdict for a concrete run: whether a signature verifies depends on the hash and the
  padding, which are not modelled, so a run fixes the answer.
\<close>

definition fixed_verdict :: "bool \<Rightarrow> byte list \<Rightarrow> byte list \<Rightarrow> byte list \<Rightarrow> bool" where
  "fixed_verdict b n message sg = b"

text \<open>
  A caller's sequence of calls on one object. A call that throws leaves the object as the
  throw found it, and the caller may go on.
\<close>

datatype rsa_call =
    SetPublicModulus js_value
  | SetSignature js_value
  | ParsePayload reader

fun rsa_call_step :: "rsa_call \<Rightarrow> RsaSha256 \<Rightarrow> RsaSha256" where
  "rsa_call_step (SetPublicModulus v) this = snd (RsaSha256_setPublicModulus v this)"
| "rsa_call_step (SetSignature v) this = snd (RsaSha256_setSignature v this)"
| "rsa_call_step (ParsePayload rd) this = fst (snd (RsaSha256_parsePayload rd this))"

fun rsa_calls :: "rsa_call list \<Rightarrow> RsaSha256 \<Rightarrow> RsaSha256" where
  "rsa_calls [] this = this"
| "rsa_calls (c # cs) this = rsa_calls cs (rsa_call_step c this)"

definition signatureAsLongAsModulus :: "RsaSha256 \<Rightarrow> bool" where
  "signatureAsLongAsModulus this =
     (case (modulus this, signature this) of
        (Some m, Some s) \<Rightarrow> length s = length m
      | _ \<Rightarrow> True)"

section \<open>Ed25519\<close>

text \<open>
  The class \<open>Ed25519\<close>. Its second field is \<open>signature\<close> in the source; it carries a
  suffix here because the RSA record has a field of that name.
\<close>

record Ed25519 =
  publicKey :: "byte list option"
  signature_ed :: "byte list option"

definition Ed25519_constructor :: Ed25519 where
  "Ed25519_constructor = \<lparr>publicKey = None, signature_ed = None\<rparr>"

definition Ed25519_TYPE_ID :: nat where
  "Ed25519_TYPE_ID = 4"

definition Ed25519_FEATURE_BITMASK :: nat where
  "Ed25519_FEATURE_BITMASK = 0x20"

definition Ed25519_PUBKEY_LENGTH :: nat where
  "Ed25519_PUBKEY_LENGTH = 32"

definition Ed25519_SIGNATURE_LENGTH :: nat where
  "Ed25519_SIGNATURE_LENGTH = 64"

definition Ed25519_FULFILLMENT_LENGTH :: nat where
  "Ed25519_FULFILLMENT_LENGTH = Ed25519_PUBKEY_LENGTH + Ed25519_SIGNATURE_LENGTH"

definition Ed25519_setPublicKey :: "js_value \<Rightarrow> Ed25519 \<Rightarrow> (error + unit) \<times> Ed25519" where
  "Ed25519_setPublicKey v this =
     (case v of
        NotABuffer \<Rightarrow> (Inl TypeError, this)
      | Buffer k \<Rightarrow>
          if length k \<noteq> 32 then (Inl Error, this)
          else (Inr (), this\<lparr>publicKey := Some k\<rparr>))"

definition Ed25519_setSignature :: "js_value \<Rightarrow> Ed25519 \<Rightarrow> (error + unit) \<times> Ed25519" where
  "Ed25519_setSignature v this =
     (case v of
        NotABuffer \<Rightarrow> (Inl TypeError, this)
      | Buffer s \<Rightarrow>
          if length s \<noteq> 64 then (Inl Error, this)
          else (Inr (), this\<lparr>signature_ed := Some s\<rparr>))"

definition Ed25519_generateHash :: "Ed25519 \<Rightarrow> error + byte list" where
  "Ed25519_generateHash this =
     (case publicKey this of
        None \<Rightarrow> Inl MissingDataError
      | Some k \<Rightarrow> Inr k)"

definition Ed25519_parsePayload ::
  "reader \<Rightarrow> Ed25519 \<Rightarrow> (error + unit) \<times> Ed25519 \<times> reader" where
  "Ed25519_parsePayload rd this =
     (case readOctetString Ed25519_PUBKEY_LENGTH rd of
        (Inl e, rd1) \<Rightarrow> (Inl e, this, rd1)
      | (Inr k, rd1) \<Rightarrow>
          (case Ed25519_setPublicKey (Buffer k) this of
             (Inl e, this1) \<Rightarrow> (Inl e, this1, rd1)
           | (Inr _, this1) \<Rightarrow>
               (case readOctetString Ed25519_SIGNATURE_LENGTH rd1 of
                  (Inl e, rd2) \<Rightarrow> (Inl e, this1, rd2)
                | (Inr s, rd2) \<Rightarrow>
                    (case Ed25519_setSignature (Buffer s) this1 of
                       (r, this2) \<Rightarrow> (r, this2, rd2)))))"

definition Ed25519_writePayload :: "Ed25519 \<Rightarrow> sink \<Rightarrow> (error + unit) \<times> sink" where
  "Ed25519_writePayload this writer =
     (case writeOctetString (publicKey this) Ed25519_PUBKEY_LENGTH writer of
        (Inl e, w1) \<Rightarrow> (Inl e, w1)
      | (Inr _, w1) \<Rightarrow> writeOctetString (signature_ed this) Ed25519_SIGNATURE_LENGTH w1)"

definition Ed25519_calculateMaxFulfillmentLength :: "Ed25519 \<Rightarrow> error + nat" where
  "Ed25519_calculateMaxFulfillmentLength this = Inr Ed25519_FULFILLMENT_LENGTH"

section \<open>Setting the public modulus\<close>

text \<open>
  C3. For every buffer \<open>m\<close>, \<open>setPublicModulus(m)\<close> raises an error if \<open>m\<close> starts
  with a zero octet or if its length is outside 128..512, and otherwise succeeds and
  stores \<open>m\<close>; whenever it raises, the object, and so its modulus, is as it was.
\<close>

theorem setPublicModulus_checks:
  "((m \<noteq> [] \<and> hd m = 0) \<or> length m < 128 \<or> 512 < length m \<longrightarrow>
      (\<exists>e. RsaSha256_setPublicModulus (Buffer m) this = (Inl e, this)))
   \<and> (\<not> ((m \<noteq> [] \<and> hd m = 0) \<or> length m < 128 \<or> 512 < length m) \<longrightarrow>
      RsaSha256_setPublicModulus (Buffer m) this = (Inr (), this\<lparr>modulus := Some m\<rparr>))
   \<and> (\<forall>e this'. RsaSha256_setPublicModulus (Buffer m) this = (Inl e, this') \<longrightarrow>
      modulus this' = modulus this)"
  by (cases m) (auto simp: RsaSha256_setPublicModulus_def firstByteIsZero_def)

theorem setPublicModulus_checks_witness:
  "RsaSha256_setPublicModulus (Buffer (replicate 128 1)) RsaSha256_constructor
     = (Inr (), RsaSha256_constructor\<lparr>modulus := Some (replicate 128 1)\<rparr>)
   \<and> (\<exists>e. RsaSha256_setPublicModulus (Buffer (0 # replicate 127 1)) RsaSha256_constructor
           = (Inl e, RsaSha256_constructor))
   \<and> (\<exists>e. RsaSha256_setPublicModulus (Buffer (replicate 513 1)) RsaSha256_constructor
           = (Inl e, RsaSha256_constructor))"
  using setPublicModulus_checks [of "replicate 128 1" RsaSha256_constructor]
    setPublicModulus_checks [of "0 # replicate 127 1" RsaSha256_constructor]
    setPublicModulus_checks [of "replicate 513 1" RsaSha256_constructor]
  by simp

section \<open>Hash and maximum length of an Ed25519 fulfillment\<close>

text \<open>
  C4. For every Ed25519 fulfillment whose public key is set, \<open>generateHash()\<close>
  returns the public key itself, with no hash applied to it, and
  \<open>calculateMaxFulfillmentLength()\<close> returns the constant 96, the 32 bytes of the public
  key plus the 64 bytes of the signature; a key that \<open>setPublicKey\<close> has stored is 32
  bytes long.
\<close>

theorem ed25519_hash_is_public_key:
  "(publicKey this = Some k \<longrightarrow>
      Ed25519_generateHash this = Inr k
      \<and> Ed25519_calculateMaxFulfillmentLength this = Inr 96)
   \<and> (Ed25519_setPublicKey (Buffer k) before = (Inr (), after) \<longrightarrow>
      length k = 32 \<and> publicKey after = Some k)
   \<and> (96::nat) = Ed25519_PUBKEY_LENGTH + Ed25519_SIGNATURE_LENGTH"
  by (auto simp: Ed25519_setPublicKey_def Ed25519_generateHash_def
      Ed25519_calculateMaxFulfillmentLength_def Ed25519_FULFILLMENT_LENGTH_def
      Ed25519_PUBKEY_LENGTH_def Ed25519_SIGNATURE_LENGTH_def split: if_splits)

theorem ed25519_hash_is_public_key_witness:
  "Ed25519_setPublicKey (Buffer (replicate 32 7)) Ed25519_constructor
     = (Inr (), \<lparr>publicKey = Some (replicate 32 7), signature_ed = None\<rparr>)
   \<and> Ed25519_generateHash \<lparr>publicKey = Some (replicate 32 7), signature_ed = None\<rparr>
     = Inr (replicate 32 7)
   \<and> Ed25519_calculateMaxFulfillmentLength
       \<lparr>publicKey = Some (replicate 32 7), signature_ed = None\<rparr> = Inr 96
   \<and> length (replicate 32 (7::byte)) = 32"
  using ed25519_hash_is_public_key
    [where this = "\<lparr>publicKey = Some (replicate 32 7), signature_ed = None\<rparr>"
       and k = "replicate 32 7" and before = Ed25519_constructor
       and after = "\<lparr>publicKey = Some (replicate 32 7), signature_ed = None\<rparr>"]
  by (simp add: Ed25519_setPublicKey_def Ed25519_constructor_def)

section \<open>The maximum length of an unpopulated fulfillment\<close>

text \<open>
  C10. \<open>Ed25519.calculateMaxFulfillmentLength\<close> never raises: it returns the constant
  96 on every object, the freshly constructed one with both fields \<open>null\<close> included,
  whereas \<open>RsaSha256.calculateMaxFulfillmentLength\<close> raises the missing-data error when
  the modulus is unset.
\<close>

theorem max_length_without_data:
  "Ed25519_calculateMaxFulfillmentLength Ed25519_constructor = Inr 96
   \<and> Ed25519_calculateMaxFulfillmentLength e = Inr 96
   \<and> (modulus r = None \<longrightarrow>
        RsaSha256_calculateMaxFulfillmentLength r = Inl MissingDataError)"
  by (simp add: Ed25519_calculateMaxFulfillmentLength_def Ed25519_FULFILLMENT_LENGTH_def
      Ed25519_PUBKEY_LENGTH_def Ed25519_SIGNATURE_LENGTH_def
      RsaSha256_calculateMaxFulfillmentLength_def)

theorem max_length_without_data_witness:
  "modulus RsaSha256_constructor = None
   \<and> RsaSha256_calculateMaxFulfillmentLength RsaSha256_constructor = Inl MissingDataError
   \<and> Ed25519_calculateMaxFulfillmentLength Ed25519_constructor = Inr 96"
  using max_length_without_data [of Ed25519_constructor RsaSha256_constructor]
  by (simp add: RsaSha256_constructor_def)

section \<open>Validating an RSA fulfillment\<close>

lemma bytesUInt_replicate:
  "bytesUInt (replicate k b) * 255 + unat b = unat b * 256 ^ k"
proof (induction k)
  case 0
  show ?case by (simp add: bytesUInt_def)
next
  case (Suc k)
  have "replicate (Suc k) b = replicate k b @ [b]"
    by (simp add: replicate_append_same)
  then have "bytesUInt (replicate (Suc k) b) = bytesUInt (replicate k b) * 256 + unat b"
    by (simp only: bytesUInt_def foldl_append foldl.simps)
  then have "bytesUInt (replicate (Suc k) b) * 255 + unat b
               = (bytesUInt (replicate k b) * 255 + unat b) * 256"
    by (simp add: algebra_simps)
  with Suc.IH show ?case by simp
qed

lemma bytesUInt_replicate_less:
  assumes "unat a < unat b"
  shows "bytesUInt (replicate (Suc k) a) < bytesUInt (replicate (Suc k) b)"
proof -
  have "unat a * 256 ^ Suc k - unat a < unat b * 256 ^ Suc k - unat b"
  proof -
    have "(1::nat) < 256 ^ Suc k"
      by (rule one_less_power) simp_all
    then have "unat a * (256 ^ Suc k - 1) < unat b * (256 ^ Suc k - 1)"
      using assms by simp
    then show ?thesis by (simp add: algebra_simps)
  qed
  moreover have "bytesUInt (replicate (Suc k) a) * 255 = unat a * 256 ^ Suc k - unat a"
    using bytesUInt_replicate [of "Suc k" a] by linarith
  moreover have "bytesUInt (replicate (Suc k) b) * 255 = unat b * 256 ^ Suc k - unat b"
    using bytesUInt_replicate [of "Suc k" b] by linarith
  ultimately show ?thesis by simp
qed

lemma bytesUInt_128_ones_twos:
  "bytesUInt (replicate 128 1) < bytesUInt (replicate 128 2)"
  using bytesUInt_replicate_less [of 1 2 127] by simp

text \<open>
  C6, as the code has it. For every buffer \<open>message\<close>, \<open>RsaSha256.validate(message)\<close>
  returns true exactly when \<open>rsa.verify\<close>, called on the stored modulus, the message and
  the stored signature, returns a true result; it raises the validation error when
  \<open>rsa.verify\<close> returns a false one; an error that \<open>rsa.verify\<close> itself throws goes
  through unchanged; and no value other than true is returned.
\<close>

theorem validate_true_or_raises:
  "(RsaSha256_validate verify (Buffer msg) this = Inr True
      \<longleftrightarrow> verify (modulus this) msg (signature this) = Inr True)
   \<and> (verify (modulus this) msg (signature this) = Inr False \<longrightarrow>
        RsaSha256_validate verify (Buffer msg) this = Inl ValidationError)
   \<and> (\<forall>e. verify (modulus this) msg (signature this) = Inl e \<longrightarrow>
        RsaSha256_validate verify (Buffer msg) this = Inl e)
   \<and> (\<forall>b. RsaSha256_validate verify (Buffer msg) this = Inr b \<longrightarrow> b = True)"
  by (cases "verify (modulus this) msg (signature this)")
     (auto simp: RsaSha256_validate_def)

theorem validate_true_or_raises_witness:
  "RsaSha256_validate (rsa_verify (fixed_verdict True)) (Buffer [])
       \<lparr>modulus = Some (replicate 128 2), signature = Some (replicate 128 1)\<rparr> = Inr True
   \<and> RsaSha256_validate (rsa_verify (fixed_verdict False)) (Buffer [])
       \<lparr>modulus = Some (replicate 128 2), signature = Some (replicate 128 1)\<rparr>
     = Inl ValidationError
   \<and> RsaSha256_validate (rsa_verify (fixed_verdict True)) (Buffer []) RsaSha256_constructor
     = Inl TypeError"
proof -
  have t: "rsa_verify (fixed_verdict True) (Some (replicate 128 2)) [] (Some (replicate 128 1))
             = Inr True"
    using bytesUInt_128_ones_twos by (simp add: rsa_verify_def fixed_verdict_def)
  have f: "rsa_verify (fixed_verdict False) (Some (replicate 128 2)) [] (Some (replicate 128 1))
             = Inr False"
    using bytesUInt_128_ones_twos by (simp add: rsa_verify_def fixed_verdict_def)
  have n: "rsa_verify (fixed_verdict True) None [] None = Inl TypeError"
    by (simp add: rsa_verify_def)
  show ?thesis
    using validate_true_or_raises
      [where verify = "rsa_verify (fixed_verdict True)" and msg = "[]"
         and this = "\<lparr>modulus = Some (replicate 128 2), signature = Some (replicate 128 1)\<rparr>"]
      validate_true_or_raises
      [where verify = "rsa_verify (fixed_verdict False)" and msg = "[]"
         and this = "\<lparr>modulus = Some (replicate 128 2), signature = Some (replicate 128 1)\<rparr>"]
      validate_true_or_raises
      [where verify = "rsa_verify (fixed_verdict True)" and msg = "[]"
         and this = RsaSha256_constructor]
      t f n
    by (simp add: RsaSha256_constructor_def)
qed

text \<open>
  C6, as the claim states it, fails: on a fulfillment whose modulus is 128 bytes of 01 and
  whose signature is 128 bytes of 02, both stored by the setters, the signature is not
  below the modulus, \<open>rsa.verify\<close> throws, and \<open>validate\<close> raises that error, which
  is neither true nor the validation error.
\<close>

theorem validate_lets_verify_error_through:
  "RsaSha256_validate (rsa_verify (fixed_verdict False)) (Buffer [])
       \<lparr>modulus = Some (replicate 128 1), signature = Some (replicate 128 2)\<rparr> = Inl Error
   \<and> RsaSha256_validate (rsa_verify (fixed_verdict False)) (Buffer [])
       \<lparr>modulus = Some (replicate 128 1), signature = Some (replicate 128 2)\<rparr>
     \<noteq> Inl ValidationError"
  using bytesUInt_128_ones_twos
  by (simp add: RsaSha256_validate_def rsa_verify_def)

section \<open>What a sequence of calls leaves in an RSA fulfillment\<close>

lemma firstByteIsZero_hd: "firstByteIsZero m \<longleftrightarrow> m \<noteq> [] \<and> hd m = 0"
  by (cases m) (simp_all add: firstByteIsZero_def)

lemma setPublicModulus_modulus:
  "RsaSha256_setPublicModulus v this = (r, this') \<Longrightarrow> modulus this' = Some m \<Longrightarrow>
     modulus this = Some m \<or> (128 \<le> length m \<and> length m \<le> 512 \<and> m \<noteq> [] \<and> hd m \<noteq> 0)"
  by (cases v) (auto simp: RsaSha256_setPublicModulus_def firstByteIsZero_hd split: if_splits)

lemma setSignature_modulus:
  "RsaSha256_setSignature v this = (r, this') \<Longrightarrow> modulus this' = modulus this"
  by (cases v) (auto simp: RsaSha256_setSignature_def)

lemma parsePayload_modulus:
  assumes "RsaSha256_parsePayload rd this = (r, this', rd')" "modulus this' = Some m"
  shows "modulus this = Some m \<or> (128 \<le> length m \<and> length m \<le> 512 \<and> m \<noteq> [] \<and> hd m \<noteq> 0)"
proof (cases "readVarOctetString rd")
  case (Pair a rd1)
  show ?thesis
  proof (cases a)
    case (Inl e)
    with Pair assms show ?thesis by (simp add: RsaSha256_parsePayload_def)
  next
    case (Inr mb)
    obtain r1 this1 where h1: "RsaSha256_setPublicModulus (Buffer mb) this = (r1, this1)"
      by (cases "RsaSha256_setPublicModulus (Buffer mb) this")
    show ?thesis
    proof (cases r1)
      case (Inl e)
      with Pair Inr h1 assms have "this' = this1"
        by (simp add: RsaSha256_parsePayload_def)
      with setPublicModulus_modulus [OF h1] assms(2) show ?thesis by simp
    next
      case r1: (Inr u)
      obtain b rd2 where h2: "readVarOctetString rd1 = (b, rd2)"
        by (cases "readVarOctetString rd1")
      show ?thesis
      proof (cases b)
        case (Inl e)
        with Pair Inr h1 r1 h2 assms have "this' = this1"
          by (simp add: RsaSha256_parsePayload_def)
        with setPublicModulus_modulus [OF h1] assms(2) show ?thesis by simp
      next
        case s: (Inr sb)
        obtain r3 this3 where h3: "RsaSha256_setSignature (Buffer sb) this1 = (r3, this3)"
          by (cases "RsaSha256_setSignature (Buffer sb) this1")
        with Pair Inr h1 r1 h2 s assms have "this' = this3"
          by (simp add: RsaSha256_parsePayload_def)
        with setSignature_modulus [OF h3] assms(2) have "modulus this1 = Some m" by simp
        with setPublicModulus_modulus [OF h1] show ?thesis by simp
      qed
    qed
  qed
qed

lemma rsa_call_step_modulus:
  assumes "modulus (rsa_call_step c this) = Some m"
  shows "modulus this = Some m \<or> (128 \<le> length m \<and> length m \<le> 512 \<and> m \<noteq> [] \<and> hd m \<noteq> 0)"
proof (cases c)
  case (SetPublicModulus v)
  obtain r this' where h: "RsaSha256_setPublicModulus v this = (r, this')"
    by (cases "RsaSha256_setPublicModulus v this")
  with assms SetPublicModulus show ?thesis
    using setPublicModulus_modulus [OF h, of m] by simp
next
  case (SetSignature v)
  obtain r this' where h: "RsaSha256_setSignature v this = (r, this')"
    by (cases "RsaSha256_setSignature v this")
  with assms SetSignature show ?thesis
    using setSignature_modulus [OF h] by simp
next
  case (ParsePayload rd)
  obtain r this' rd' where h: "RsaSha256_parsePayload rd this = (r, this', rd')"
    by (cases "RsaSha256_parsePayload rd this") auto
  with assms ParsePayload show ?thesis
    using parsePayload_modulus [OF h, of m] by simp
qed

lemma rsa_calls_modulus:
  "modulus (rsa_calls cs this) = Some m \<Longrightarrow>
     modulus this = Some m \<or> (128 \<le> length m \<and> length m \<le> 512 \<and> m \<noteq> [] \<and> hd m \<noteq> 0)"
proof (induction cs arbitrary: this)
  case Nil
  then show ?case by simp
next
  case (Cons c cs)
  from Cons.prems have "modulus (rsa_calls cs (rsa_call_step c this)) = Some m" by simp
  from Cons.IH [OF this] show ?case
    using rsa_call_step_modulus [of c this m] by blast
qed

text \<open>
  C2, as the code has it. After any sequence of \<open>setPublicModulus\<close>,
  \<open>setSignature\<close> and \<open>parsePayload\<close> calls on a new fulfillment, a modulus that is
  set is between 128 and 512 bytes long and does not start with a zero byte; the signature
  is not tied to it: \<open>setSignature\<close> stores every Buffer it is given, of any length.
\<close>

theorem calls_keep_modulus_in_range:
  "(modulus (rsa_calls cs RsaSha256_constructor) = Some m \<longrightarrow>
      128 \<le> length m \<and> length m \<le> 512 \<and> m \<noteq> [] \<and> hd m \<noteq> 0)
   \<and> RsaSha256_setSignature (Buffer s) this = (Inr (), this\<lparr>signature := Some s\<rparr>)"
  using rsa_calls_modulus [of cs RsaSha256_constructor m]
  by (simp add: RsaSha256_constructor_def RsaSha256_setSignature_def)

theorem calls_keep_modulus_in_range_witness:
  "modulus (rsa_calls [SetPublicModulus (Buffer (replicate 128 1)), SetSignature (Buffer [])]
      RsaSha256_constructor) = Some (replicate 128 1)
   \<and> 128 \<le> length (replicate 128 (1::byte)) \<and> length (replicate 128 (1::byte)) \<le> 512
   \<and> hd (replicate 128 (1::byte)) \<noteq> 0"
proof -
  have h: "modulus (rsa_calls [SetPublicModulus (Buffer (replicate 128 1)), SetSignature (Buffer [])]
      RsaSha256_constructor) = Some (replicate 128 1)"
    by (simp add: RsaSha256_setPublicModulus_def RsaSha256_setSignature_def
        firstByteIsZero_hd RsaSha256_constructor_def)
  show ?thesis
    using calls_keep_modulus_in_range
      [of "[SetPublicModulus (Buffer (replicate 128 1)), SetSignature (Buffer [])]"
          "replicate 128 1"] h
    by simp
qed

text \<open>
  C2, as the claim states it, fails: a valid modulus of 128 bytes followed by
  \<open>setSignature\<close> of the empty Buffer leaves both fields set, with lengths 128 and 0.
\<close>

theorem signature_length_not_enforced:
  "\<not> signatureAsLongAsModulus
       (rsa_calls [SetPublicModulus (Buffer (replicate 128 1)), SetSignature (Buffer [])]
          RsaSha256_constructor)"
  by (simp add: signatureAsLongAsModulus_def RsaSha256_setPublicModulus_def
      RsaSha256_setSignature_def firstByteIsZero_hd RsaSha256_constructor_def)

section \<open>Signing with an RSA private key\<close>




section \<open>The OER codec reads back what it writes\<close>

lemma bytesUInt_snoc: "bytesUInt (bs @ [b]) = bytesUInt bs * 256 + unat b"
  by (simp add: bytesUInt_def)

lemma unat_byte_of_nat: "unat (of_nat (n mod 256) :: byte) = n mod 256"
  by (simp add: unat_of_nat)

lemma bytesUInt_uintBytes: "bytesUInt (uintBytes n) = n"
proof (induction n rule: uintBytes.induct)
  case (1 n)
  show ?case
  proof (cases "n = 0")
    case True
    then show ?thesis by (simp add: uintBytes.simps bytesUInt_def)
  next
    case False
    with 1 have ih: "bytesUInt (uintBytes (n div 256)) = n div 256" by simp
    have "uintBytes n = uintBytes (n div 256) @ [of_nat (n mod 256)]"
      using False by (subst uintBytes.simps) simp
    then show ?thesis
      by (simp add: bytesUInt_snoc ih unat_byte_of_nat)
  qed
qed

lemma length_uintBytes_le: "n < 256 ^ k \<Longrightarrow> length (uintBytes n) \<le> k"
proof (induction k arbitrary: n)
  case 0
  then have "n = 0" by simp
  then show ?case by (simp add: uintBytes.simps)
next
  case (Suc k)
  show ?case
  proof (cases "n = 0")
    case True
    then show ?thesis by (simp add: uintBytes.simps)
  next
    case False
    from Suc.prems have "n div 256 < 256 ^ k"
      by (simp add: less_mult_imp_div_less mult.commute)
    from Suc.IH [OF this] have "length (uintBytes (n div 256)) \<le> k" .
    moreover have "uintBytes n = uintBytes (n div 256) @ [of_nat (n mod 256)]"
      using False by (subst uintBytes.simps) simp
    ultimately show ?thesis by simp
  qed
qed

lemma unat_count_octet: "k \<le> 127 \<Longrightarrow> unat (of_nat k :: byte) = k"
  by (simp add: unat_of_nat)

lemma readVarUInt_encodeVarUInt:
  assumes "length (uintBytes n) \<le> 127"
  shows "readVarUInt (encodeVarUInt n @ rest) = (Inr n, rest)"
  using assms
  by (simp add: readVarUInt_def encodeVarUInt_def unat_count_octet bytesUInt_uintBytes)

lemma readVarOctetString_encodeVarOctetString:
  assumes "length (uintBytes (length b)) \<le> 127"
  shows "readVarOctetString (encodeVarOctetString b @ rest) = (Inr b, rest)"
  using assms
  by (simp add: readVarOctetString_def encodeVarOctetString_def readVarUInt_encodeVarUInt)

lemma writeVarOctetString_Writer:
  assumes "length (uintBytes (length b)) \<le> 127"
  shows "writeVarOctetString b (Writer w) = (Inr (), Writer (w @ encodeVarOctetString b))"
  using assms
  by (simp add: writeVarOctetString_def writeVarUInt_def encodeVarOctetString_def)

lemma writeVarOctetString_Predictor:
  assumes "length (uintBytes (length b)) \<le> 127"
  shows "writeVarOctetString b (Predictor n)
           = (Inr (), Predictor (n + length (encodeVarOctetString b)))"
  using assms
  by (simp add: writeVarOctetString_def writeVarUInt_def encodeVarOctetString_def)

lemma length_encodeVarOctetString:
  "length (encodeVarOctetString b) = 1 + length (uintBytes (length b)) + length b"
  by (simp add: encodeVarOctetString_def encodeVarUInt_def)

lemma uintBytes_128: "uintBytes 128 = [128]"
  by (simp add: uintBytes.simps)

lemma readVarOctetString_encodeVarOctetString_end:
  assumes "length (uintBytes (length b)) \<le> 127"
  shows "readVarOctetString (encodeVarOctetString b) = (Inr b, [])"
  using readVarOctetString_encodeVarOctetString [OF assms, of "[]"] by simp

lemma octets_fit: "length b < 256 ^ 127 \<Longrightarrow> length (uintBytes (length b)) \<le> 127"
  by (rule length_uintBytes_le)

lemma setPublicModulus_accepts:
  assumes "128 \<le> length m" "length m \<le> 512" "hd m \<noteq> 0"
  shows "RsaSha256_setPublicModulus (Buffer m) this = (Inr (), this\<lparr>modulus := Some m\<rparr>)"
  using assms by (simp add: RsaSha256_setPublicModulus_def firstByteIsZero_hd)

lemma rsa_max_length:
  assumes "modulus this = Some m" "length m < 256 ^ 127"
  shows "RsaSha256_calculateMaxFulfillmentLength this
           = Inr (length (encodeVarOctetString m) + length (encodeVarOctetString m))"
  using assms octets_fit [OF assms(2)]
  by (simp add: RsaSha256_calculateMaxFulfillmentLength_def RsaSha256_writeCommonHeader_def
      writeVarOctetString_Predictor)

lemma rsa_writePayload:
  assumes "modulus this = Some m" "signature this = Some s"
    "length m < 256 ^ 127" "length s < 256 ^ 127"
  shows "RsaSha256_writePayload this (Writer w)
           = (Inr (), Writer (w @ encodeVarOctetString m @ encodeVarOctetString s))"
  using assms octets_fit [OF assms(3)] octets_fit [OF assms(4)]
  by (simp add: RsaSha256_writePayload_def RsaSha256_writeCommonHeader_def
      writeVarOctetString_Writer)

lemma rsa_parsePayload:
  assumes "128 \<le> length m" "length m \<le> 512" "hd m \<noteq> 0" "length s < 256 ^ 127"
  shows "RsaSha256_parsePayload (encodeVarOctetString m @ encodeVarOctetString s) this
           = (Inr (), this\<lparr>modulus := Some m, signature := Some s\<rparr>, [])"
proof -
  have "length m < 256 ^ 127" using assms(2) by (simp add: less_le_trans [of _ "513"])
  from octets_fit [OF this] octets_fit [OF assms(4)] show ?thesis
    by (simp add: RsaSha256_parsePayload_def readVarOctetString_encodeVarOctetString
        readVarOctetString_encodeVarOctetString_end setPublicModulus_accepts [OF assms(1-3)]
        RsaSha256_setSignature_def)
qed

lemma ed25519_writePayload:
  assumes "publicKey this = Some k" "signature_ed this = Some sg" "length k = 32" "length sg = 64"
  shows "Ed25519_writePayload this (Writer w) = (Inr (), Writer (w @ k @ sg))"
  using assms
  by (simp add: Ed25519_writePayload_def writeOctetString_def Ed25519_PUBKEY_LENGTH_def
      Ed25519_SIGNATURE_LENGTH_def)

lemma ed25519_parsePayload:
  assumes "length k = 32" "length sg = 64"
  shows "Ed25519_parsePayload (k @ sg) this
           = (Inr (), this\<lparr>publicKey := Some k, signature_ed := Some sg\<rparr>, [])"
  using assms
  by (simp add: Ed25519_parsePayload_def readOctetString_def Ed25519_PUBKEY_LENGTH_def
      Ed25519_SIGNATURE_LENGTH_def Ed25519_setPublicKey_def Ed25519_setSignature_def)

section \<open>The maximum length of an RSA fulfillment\<close>

text \<open>
  C1. For every RSA-SHA-256 fulfillment whose modulus is set,
  \<open>calculateMaxFulfillmentLength()\<close> returns the size the Predictor reaches when the
  modulus is written twice as a VarOctetString, once as the common header and once in the
  place of the signature; and this is the exact length of the payload
  \<open>VarOctetString(modulus) | VarOctetString(signature)\<close> that \<open>writePayload\<close> writes
  whenever the signature is as long as the modulus. (A modulus the codec can frame at all
  is shorter than \<open>256 ^ 127\<close> bytes; \<open>setPublicModulus\<close> admits at most 512.)
\<close>

theorem max_length_is_two_modulus_strings:
  assumes "modulus this = Some m" and "length m < 256 ^ 127"
  shows "RsaSha256_calculateMaxFulfillmentLength this
           = Inr (getSize (snd (writeVarOctetString m
                   (snd (writeVarOctetString m (Predictor 0))))))
         \<and> RsaSha256_calculateMaxFulfillmentLength this
           = Inr (2 * (1 + length (uintBytes (length m)) + length m))
         \<and> (signature this = Some s \<and> length s = length m \<longrightarrow>
              RsaSha256_writePayload this (Writer [])
                = (Inr (), Writer (encodeVarOctetString m @ encodeVarOctetString s))
              \<and> RsaSha256_calculateMaxFulfillmentLength this
                = Inr (length (encodeVarOctetString m @ encodeVarOctetString s)))"
proof -
  have fit: "length (uintBytes (length m)) \<le> 127"
    using assms(2) by (rule octets_fit)
  have size: "getSize (snd (writeVarOctetString m (snd (writeVarOctetString m (Predictor 0)))))
                = length (encodeVarOctetString m) + length (encodeVarOctetString m)"
    by (simp add: writeVarOctetString_Predictor [OF fit])
  have a: "RsaSha256_calculateMaxFulfillmentLength this
             = Inr (length (encodeVarOctetString m) + length (encodeVarOctetString m))"
    using assms by (rule rsa_max_length)
  have b: "signature this = Some s \<and> length s = length m \<longrightarrow>
             RsaSha256_writePayload this (Writer [])
               = (Inr (), Writer (encodeVarOctetString m @ encodeVarOctetString s))
             \<and> length (encodeVarOctetString m @ encodeVarOctetString s)
               = length (encodeVarOctetString m) + length (encodeVarOctetString m)"
  proof
    assume h: "signature this = Some s \<and> length s = length m"
    then have "length s < 256 ^ 127" using assms(2) by simp
    with h assms rsa_writePayload [of this m s "[]"] show
      "RsaSha256_writePayload this (Writer [])
               = (Inr (), Writer (encodeVarOctetString m @ encodeVarOctetString s))
             \<and> length (encodeVarOctetString m @ encodeVarOctetString s)
               = length (encodeVarOctetString m) + length (encodeVarOctetString m)"
      by (simp add: length_encodeVarOctetString)
  qed
  show ?thesis
    using a b size by (simp add: length_encodeVarOctetString)
qed

theorem max_length_is_two_modulus_strings_witness:
  "RsaSha256_calculateMaxFulfillmentLength
       \<lparr>modulus = Some (replicate 128 1), signature = Some (replicate 128 2)\<rparr> = Inr 260
   \<and> RsaSha256_writePayload
       \<lparr>modulus = Some (replicate 128 1), signature = Some (replicate 128 2)\<rparr> (Writer [])
     = (Inr (), Writer (encodeVarOctetString (replicate 128 1)
                        @ encodeVarOctetString (replicate 128 2)))
   \<and> length (encodeVarOctetString (replicate 128 1) @ encodeVarOctetString (replicate 128 2))
     = 260"
  using max_length_is_two_modulus_strings
    [where this = "\<lparr>modulus = Some (replicate 128 1), signature = Some (replicate 128 2)\<rparr>"
       and m = "replicate 128 1" and s = "replicate 128 2"]
  by (simp add: uintBytes_128 length_encodeVarOctetString writeVarOctetString_Predictor)

section \<open>Parsing a written payload\<close>

text \<open>
  C5. For every RSA-SHA-256 fulfillment \<open>f\<close> with a valid modulus and a set signature,
  \<open>writePayload\<close> writes \<open>VarOctetString(modulus)\<close> followed by
  \<open>VarOctetString(signature)\<close>, and \<open>parsePayload\<close> on these bytes, on whatever
  object, leaves a fulfillment equal to \<open>f\<close>; and for every Ed25519 fulfillment with a
  32-byte public key and a 64-byte signature, \<open>writePayload\<close> writes the two fixed-size
  octet strings and \<open>parsePayload\<close> on them leaves the same fulfillment. (A signature
  the codec can frame is shorter than \<open>256 ^ 127\<close> bytes.)
\<close>

theorem payload_roundtrip:
  "(modulus f = Some m \<and> signature f = Some s
      \<and> 128 \<le> length m \<and> length m \<le> 512 \<and> hd m \<noteq> 0 \<and> length s < 256 ^ 127 \<longrightarrow>
      RsaSha256_writePayload f (Writer [])
        = (Inr (), Writer (encodeVarOctetString m @ encodeVarOctetString s))
      \<and> RsaSha256_parsePayload (encodeVarOctetString m @ encodeVarOctetString s) before
        = (Inr (), f, []))
   \<and> (publicKey g = Some k \<and> signature_ed g = Some sg
      \<and> length k = 32 \<and> length sg = 64 \<longrightarrow>
      Ed25519_writePayload g (Writer []) = (Inr (), Writer (k @ sg))
      \<and> Ed25519_parsePayload (k @ sg) before_ed = (Inr (), g, []))"
proof (intro conjI impI)
  assume h: "modulus f = Some m \<and> signature f = Some s
      \<and> 128 \<le> length m \<and> length m \<le> 512 \<and> hd m \<noteq> 0 \<and> length s < 256 ^ 127"
  then have lm: "length m < 256 ^ 127" by (simp add: less_le_trans [of _ "513"])
  from h lm rsa_writePayload [of f m s "[]"]
  show "RsaSha256_writePayload f (Writer [])
        = (Inr (), Writer (encodeVarOctetString m @ encodeVarOctetString s))"
    by simp
  have "before\<lparr>modulus := Some m, signature := Some s\<rparr> = f"
    using h by (cases f; cases before) simp
  with h rsa_parsePayload [of m s before]
  show "RsaSha256_parsePayload (encodeVarOctetString m @ encodeVarOctetString s) before
        = (Inr (), f, [])"
    by simp
next
  assume h: "publicKey g = Some k \<and> signature_ed g = Some sg
      \<and> length k = 32 \<and> length sg = 64"
  with ed25519_writePayload [of g k sg "[]"]
  show "Ed25519_writePayload g (Writer []) = (Inr (), Writer (k @ sg))"
    by simp
  have "before_ed\<lparr>publicKey := Some k, signature_ed := Some sg\<rparr> = g"
    using h by (cases g; cases before_ed) simp
  with h ed25519_parsePayload [of k sg before_ed]
  show "Ed25519_parsePayload (k @ sg) before_ed = (Inr (), g, [])"
    by simp
qed

theorem payload_roundtrip_witness:
  "RsaSha256_writePayload \<lparr>modulus = Some (replicate 128 1), signature = Some [5, 6]\<rparr> (Writer [])
     = (Inr (), Writer (encodeVarOctetString (replicate 128 1) @ encodeVarOctetString [5, 6]))
   \<and> RsaSha256_parsePayload
       (encodeVarOctetString (replicate 128 1) @ encodeVarOctetString [5, 6])
       RsaSha256_constructor
     = (Inr (), \<lparr>modulus = Some (replicate 128 1), signature = Some [5, 6]\<rparr>, [])
   \<and> Ed25519_writePayload
       \<lparr>publicKey = Some (replicate 32 1), signature_ed = Some (replicate 64 2)\<rparr> (Writer [])
     = (Inr (), Writer (replicate 32 1 @ replicate 64 2))
   \<and> Ed25519_parsePayload (replicate 32 1 @ replicate 64 2) Ed25519_constructor
     = (Inr (), \<lparr>publicKey = Some (replicate 32 1), signature_ed = Some (replicate 64 2)\<rparr>, [])"
  using payload_roundtrip
    [where f = "\<lparr>modulus = Some (replicate 128 1), signature = Some [5, 6]\<rparr>"
       and m = "replicate 128 1" and s = "[5, 6]" and before = RsaSha256_constructor
       and g = "\<lparr>publicKey = Some (replicate 32 1), signature_ed = Some (replicate 64 2)\<rparr>"
       and k = "replicate 32 1" and sg = "replicate 64 2" and before_ed = Ed25519_constructor]
  by simp

end
